theory Spec2Isabelle
  imports Main "HOL-Library.Sublist" "HOL-Library.Word"
begin

section \<open>Smart Second Brain: router, ingestion and listing\<close>

text \<open>
  A shallow embedding of \<^verbatim>\<open>main.py\<close> and of the models of \<^verbatim>\<open>schemas.py\<close>. A Python
  string is a \<^typ>\<open>string\<close> holding its UTF-8 bytes; an \<^verbatim>\<open>Optional[T]\<close> argument is a
  \<^typ>\<open>'a option\<close>. Raised exceptions are values on the left of a sum.
\<close>

subsection \<open>Python primitives used by the source\<close>

text \<open>
  \<^verbatim>\<open>str.lower()\<close>. A string is its sequence of UTF-8 bytes, so an ASCII character is
  one byte below 128 and every other character is a run of bytes from 128 on. Python
  lowers an ASCII character by itself, whatever stands around it: \<^verbatim>\<open>A..Z\<close> (65 to 90)
  move to \<^verbatim>\<open>a..z\<close>, the others stay.
\<close>

definition lower_ascii :: "char \<Rightarrow> char" where
  "lower_ascii c =
     (let n = (of_char c :: nat)
      in if 65 \<le> n \<and> n \<le> 90 then char_of (n + 32) else c)"

text \<open>
  How Python lowers a character outside ASCII is fixed by the Unicode tables of the
  interpreter, not by this program, and may depend on the neighbours of the character
  (the final sigma rule). It is the parameter \<open>tbl\<close> of the model: for a byte from 128
  on, with the bytes before it and the bytes after it, \<open>tbl\<close> gives the bytes that this
  position adds to the result (the lowered character at the first byte of a character,
  nothing at the bytes that continue it). Every statement below that mentions \<open>tbl\<close>
  holds for every such table, hence for Python's. The result may contain ASCII letters
  that the input does not: the Kelvin sign U+212A is lowered to \<^verbatim>\<open>k\<close>.
\<close>

type_synonym lower_table = "string \<Rightarrow> char \<Rightarrow> string \<Rightarrow> string"

fun lower_at :: "lower_table \<Rightarrow> string \<Rightarrow> string \<Rightarrow> string" where
  "lower_at tbl pre [] = []"
| "lower_at tbl pre (c # cs) =
     (if (of_char c :: nat) < 128 then [lower_ascii c] else tbl pre c cs)
       @ lower_at tbl (pre @ [c]) cs"

definition lower :: "lower_table \<Rightarrow> string \<Rightarrow> string" where
  "lower tbl s = lower_at tbl [] s"

text \<open>
  \<^verbatim>\<open>x or d\<close> for a value that is \<^verbatim>\<open>None\<close>, a string or a list: \<^verbatim>\<open>None\<close> and the
  empty sequence are falsy, so the default is taken for both.
\<close>

definition py_or :: "'a list option \<Rightarrow> 'a list \<Rightarrow> 'a list" where
  "py_or x d = (case x of None \<Rightarrow> d | Some v \<Rightarrow> if v = [] then d else v)"

text \<open>
  \<^verbatim>\<open>t in s\<close> on two strings is contiguous containment, which is \<^const>\<open>sublist\<close>
  (on UTF-8 bytes as on characters, an encoded character never starting inside
  another); \<^verbatim>\<open>any(t in text_l for t in kws)\<close> is then the following.
\<close>

definition any_in :: "string list \<Rightarrow> string \<Rightarrow> bool" where
  "any_in kws text_l = list_ex (\<lambda>t. sublist t text_l) kws"

subsection \<open>The router\<close>

definition smart_route_folder ::
  "lower_table \<Rightarrow> string option \<Rightarrow> string list option \<Rightarrow> string" where
  "smart_route_folder tbl text tags =
     (let text_l = lower tbl (py_or text '''');
          tagset = set (map (lower tbl) (py_or tags []))
      in if any_in [''todo'', ''task'', ''next'', ''due'', ''deadline''] text_l
            \<or> ''task'' \<in> tagset then ''tasks''
         else if any_in [''idea'', ''concept'', ''brainstorm'', ''inspiration''] text_l
            \<or> ''idea'' \<in> tagset then ''ideas''
         else if any_in [''meeting'', ''call'', ''note'', ''summary''] text_l
            \<or> ''notes'' \<in> tagset then ''notes''
         else if any_in [''article'', ''read'', ''bookmark'', ''link''] text_l
            \<or> ''read'' \<in> tagset then ''reads''
         else ''inbox'')"

subsection \<open>The folder registry\<close>

record Folder =
  key :: string
  name :: string
  color :: string
  icon :: string
  priority :: int

definition get_folders :: "Folder list" where
  "get_folders =
     [\<lparr>key = ''inbox'', name = ''Inbox'', color = ''#94a3b8'', icon = ''inbox'', priority = 0\<rparr>,
      \<lparr>key = ''ideas'', name = ''Ideas'', color = ''#22c55e'', icon = ''sparkles'', priority = 3\<rparr>,
      \<lparr>key = ''tasks'', name = ''Tasks'', color = ''#3b82f6'', icon = ''check-circle'', priority = 4\<rparr>,
      \<lparr>key = ''notes'', name = ''Notes'', color = ''#f59e0b'', icon = ''notepad'', priority = 2\<rparr>,
      \<lparr>key = ''reads'', name = ''Reads'', color = ''#ec4899'', icon = ''book-open'', priority = 1\<rparr>]"

subsection \<open>Requests, documents and errors\<close>

text \<open>The request body of the ingest operation (\<^verbatim>\<open>ThoughtCreate\<close>).\<close>

record ThoughtCreate =
  title :: "string option"
  content :: "string option"
  modality :: string
  source_url :: "string option"
  image_data_url :: "string option"
  tags :: "string list option"

text \<open>
  The stored entity (\<^verbatim>\<open>Thought\<close> of \<^verbatim>\<open>schemas.py\<close>). A point in time is an integer
  (microseconds since the epoch); \<^verbatim>\<open>meta\<close> is a list of key and value pairs.
\<close>

type_synonym datetime = int

record Thought =
  title :: "string option"
  content :: "string option"
  modality :: string
  source_url :: "string option"
  image_data_url :: "string option"
  tags :: "string list"
  folder :: "string option"
  meta :: "(string \<times> string) list"
  pinned :: bool
  status :: string
  created_at :: "datetime option"
  updated_at :: "datetime option"

text \<open>
  A BSON object identifier is twelve bytes; \<^verbatim>\<open>str\<close> of it is its 24 lower-case
  hexadecimal digits, most significant first.
\<close>

datatype object_id = ObjectId "96 word"

definition hex_digit :: "nat \<Rightarrow> char" where
  "hex_digit d = (if d < 10 then char_of (48 + d) else char_of (87 + d))"

fun str_object_id :: "object_id \<Rightarrow> string" where
  "str_object_id (ObjectId w) =
     map (\<lambda>i. hex_digit (unat (take_bit 4 (drop_bit (4 * (23 - i)) w)))) [0..<24]"

text \<open>
  A document as the query returns it: the fields of the stored \<^verbatim>\<open>Thought\<close>, the key
  \<^verbatim>\<open>_id\<close> (here \<open>raw_id\<close>) holding the object identifier when present, and the key
  \<^verbatim>\<open>id\<close> (here \<open>id'\<close>) when present.
\<close>

record doc = Thought +
  raw_id :: "object_id option"
  id' :: "string option"

text \<open>A query filter is a dictionary from field names to the string required there.\<close>

type_synonym filter_dict = "(string \<times> string) list"

text \<open>A raised \<^verbatim>\<open>Exception\<close> carries the text \<^verbatim>\<open>str(e)\<close> gives.\<close>

datatype exn = Exception string

record HTTPException =
  status_code :: int
  detail :: string

record IngestResponse =
  ok :: bool
  id' :: string
  folder :: string

record ListResponse =
  ok :: bool
  items :: "doc list"

subsection \<open>The handlers\<close>

text \<open>
  The module \<^verbatim>\<open>database\<close> is not part of the sources at hand, so the handlers take
  its two functions as arguments \<open>create_doc\<close> and \<open>get_docs\<close>. Each works on a
  database state of any type \<open>'s\<close>, returns the state it leaves, and either returns a
  value or raises.
\<close>

type_synonym 's create_document_fn = "string \<Rightarrow> Thought \<Rightarrow> 's \<Rightarrow> (exn + string) \<times> 's"

type_synonym 's get_documents_fn = "string \<Rightarrow> filter_dict \<Rightarrow> int \<Rightarrow> 's \<Rightarrow> (exn + doc list) \<times> 's"

definition new_thought :: "ThoughtCreate \<Rightarrow> string \<Rightarrow> Thought" where
  "new_thought payload fld =
     \<lparr>title = ThoughtCreate.title payload,
      content = ThoughtCreate.content payload,
      modality = ThoughtCreate.modality payload,
      source_url = ThoughtCreate.source_url payload,
      image_data_url = ThoughtCreate.image_data_url payload,
      tags = py_or (ThoughtCreate.tags payload) [],
      folder = Some fld,
      meta = [(''routed_by'', ''heuristic-v0'')],
      pinned = False,
      status = ''active'',
      created_at = None,
      updated_at = None\<rparr>"

definition ingest_thought ::
  "lower_table \<Rightarrow> 's create_document_fn \<Rightarrow> ThoughtCreate \<Rightarrow> 's
     \<Rightarrow> (HTTPException + IngestResponse) \<times> 's" where
  "ingest_thought tbl create_doc payload s =
     (if ThoughtCreate.modality payload \<notin> set [''text'', ''image'', ''link'', ''voice'']
      then (Inl \<lparr>status_code = 400, detail = ''Unsupported modality''\<rparr>, s)
      else
        let fld = smart_route_folder tbl (ThoughtCreate.content payload) (ThoughtCreate.tags payload);
            d = new_thought payload fld
        in case create_doc ''thought'' d s of
             (Inr inserted_id, s') \<Rightarrow>
               (Inr \<lparr>IngestResponse.ok = True, id' = inserted_id, folder = fld\<rparr>, s')
           | (Inl (Exception e), s') \<Rightarrow>
               (Inl \<lparr>status_code = 500, detail = e\<rparr>, s'))"

text \<open>
  The body of the loop of \<^verbatim>\<open>list_thoughts\<close>: an object identifier is always truthy,
  so a document that has \<^verbatim>\<open>_id\<close> loses it and gets \<^verbatim>\<open>id\<close>.
\<close>

definition convert_id :: "doc \<Rightarrow> doc" where
  "convert_id d =
     (case raw_id d of
        Some oid \<Rightarrow> d\<lparr>raw_id := None, doc.id' := Some (str_object_id oid)\<rparr>
      | None \<Rightarrow> d)"

definition list_thoughts ::
  "'s get_documents_fn \<Rightarrow> string option \<Rightarrow> int \<Rightarrow> 's \<Rightarrow> (HTTPException + ListResponse) \<times> 's" where
  "list_thoughts get_docs fld limit s =
     (let flt = (case fld of
                   None \<Rightarrow> []
                 | Some f \<Rightarrow> if f = [] then [] else [(''folder'', f)])
      in case get_docs ''thought'' flt limit s of
           (Inr docs, s') \<Rightarrow> (Inr \<lparr>ok = True, items = map convert_id docs\<rparr>, s')
         | (Inl (Exception e), s') \<Rightarrow> (Inl \<lparr>status_code = 500, detail = e\<rparr>, s'))"

subsection \<open>The document store\<close>

text \<open>
  Modelled from the spec: the module \<^verbatim>\<open>database\<close> (\<^verbatim>\<open>create_document\<close>,
  \<^verbatim>\<open>get_documents\<close>) is missing from the sources. The spec gives it as a document
  collection with \<^verbatim>\<open>insert(collection_name, document) -> generated_id\<close> and
  \<^verbatim>\<open>query(collection_name, filter, limit) -> sequence of documents\<close>: create assigns
  a fresh identifier, writes the full record and returns the identifier as a string;
  list returns the documents that match the filter, in store-natural (insertion) order,
  at most \<open>limit\<close> of them; both fail when the store is unreachable or rejects.

  The state holds, per collection name, the stored records with their identifiers in
  insertion order, the next identifier, and \<open>fault\<close>: when set, the store cannot serve
  and every operation raises with that message.
\<close>

record store =
  fault :: "string option"
  collections :: "string \<Rightarrow> (object_id \<times> Thought) list"
  counter :: "96 word"

text \<open>Modelled from the spec: a reachable store that holds no document yet.\<close>

definition empty_store :: store where
  "empty_store = \<lparr>fault = None, collections = (\<lambda>_. []), counter = 0\<rparr>"

text \<open>
  Modelled from the spec: the string-valued fields of a stored record that a filter can
  name.
\<close>

definition str_field :: "string \<Rightarrow> Thought \<Rightarrow> string option" where
  "str_field k t =
     (if k = ''title'' then title t
      else if k = ''content'' then content t
      else if k = ''modality'' then Some (modality t)
      else if k = ''source_url'' then source_url t
      else if k = ''image_data_url'' then image_data_url t
      else if k = ''folder'' then Thought.folder t
      else if k = ''status'' then Some (status t)
      else None)"

text \<open>
  Modelled from the spec: a record matches a filter when every field the filter names
  equals the value given for it.
\<close>

definition matches :: "filter_dict \<Rightarrow> Thought \<Rightarrow> bool" where
  "matches flt t = list_all (\<lambda>(k, v). str_field k t = Some v) flt"

text \<open>
  Modelled from the spec: the document the query returns for a stored record, with the
  identifier under \<^verbatim>\<open>_id\<close> and no \<^verbatim>\<open>id\<close> key.
\<close>

definition to_doc :: "object_id \<times> Thought \<Rightarrow> doc" where
  "to_doc p = Thought.extend (snd p) \<lparr>raw_id = Some (fst p), id' = None\<rparr>"

text \<open>Modelled from the spec: \<^verbatim>\<open>create_document\<close> of the missing module.\<close>

definition create_document :: "store create_document_fn" where
  "create_document collection_name data s =
     (case fault s of
        Some m \<Rightarrow> (Inl (Exception m), s)
      | None \<Rightarrow>
          let oid = ObjectId (counter s)
          in (Inr (str_object_id oid),
              s\<lparr>collections :=
                   (collections s)(collection_name := collections s collection_name @ [(oid, data)]),
                 counter := counter s + 1\<rparr>))"

text \<open>Modelled from the spec: \<^verbatim>\<open>get_documents\<close> of the missing module.\<close>

definition get_documents :: "store get_documents_fn" where
  "get_documents collection_name flt limit s =
     (case fault s of
        Some m \<Rightarrow> (Inl (Exception m), s)
      | None \<Rightarrow>
          (Inr (take (nat limit)
                  (map to_doc (filter (\<lambda>p. matches flt (snd p)) (collections s collection_name)))),
           s))"

subsection \<open>The routing policy as the spec words it\<close>

text \<open>
  The spec gives the router as a table of rules in priority order, each with a folder,
  the keywords looked for in the content and the tag looked for in the tag set; the
  first rule that holds decides, and \<open>inbox\<close> is the default. These definitions follow
  those words, to be compared with \<^const>\<open>smart_route_folder\<close>.
\<close>

definition routing_rules :: "(string \<times> string list \<times> string) list" where
  "routing_rules =
     [(''tasks'', [''todo'', ''task'', ''next'', ''due'', ''deadline''], ''task''),
      (''ideas'', [''idea'', ''concept'', ''brainstorm'', ''inspiration''], ''idea''),
      (''notes'', [''meeting'', ''call'', ''note'', ''summary''], ''notes''),
      (''reads'', [''article'', ''read'', ''bookmark'', ''link''], ''read'')]"

definition rule_holds :: "string \<Rightarrow> string set \<Rightarrow> string \<times> string list \<times> string \<Rightarrow> bool" where
  "rule_holds text_l tagset r =
     (case r of (f, kws, tag) \<Rightarrow> list_ex (\<lambda>kw. sublist kw text_l) kws \<or> tag \<in> tagset)"

definition route_spec :: "lower_table \<Rightarrow> string option \<Rightarrow> string list option \<Rightarrow> string" where
  "route_spec tbl txt tgs =
     (let text_l = lower tbl (case txt of None \<Rightarrow> '''' | Some c \<Rightarrow> c);
          tagset = set (map (lower tbl) (case tgs of None \<Rightarrow> [] | Some ts \<Rightarrow> ts))
      in case find (rule_holds text_l tagset) routing_rules of
           Some (f, kws, tag) \<Rightarrow> f
         | None \<Rightarrow> ''inbox'')"

subsection \<open>Sample inputs\<close>

text \<open>
  A lowering table that knows one character outside ASCII: the Kelvin sign U+212A, whose
  UTF-8 bytes are E2 84 AA, is lowered to \<^verbatim>\<open>k\<close>, as Python does; every other byte from
  128 on is kept.
\<close>

definition kelvin_table :: lower_table where
  "kelvin_table pre c suf =
     (if c = CHR 0xE2 \<and> take 2 suf = [CHR 0x84, CHR 0xAA] then ''k''
      else if c = CHR 0x84 \<and> pre \<noteq> [] \<and> last pre = CHR 0xE2 \<and> take 1 suf = [CHR 0xAA]
        then []
      else if c = CHR 0xAA \<and> 2 \<le> length pre
              \<and> drop (length pre - 2) pre = [CHR 0xE2, CHR 0x84]
        then []
      else [c])"

text \<open>
  Database functions over a call counter: the state is the number of calls made so far,
  so a result state tells how often the database was called.
\<close>

definition counting_create :: "nat create_document_fn" where
  "counting_create collection_name data n = (Inr ''0123456789abcdef01234567'', Suc n)"

definition failing_create :: "nat create_document_fn" where
  "failing_create collection_name data n = (Inl (Exception ''connection refused''), Suc n)"

definition failing_get :: "nat get_documents_fn" where
  "failing_get collection_name flt limit n = (Inl (Exception ''query timed out''), Suc n)"

definition video_payload :: ThoughtCreate where
  "video_payload =
     \<lparr>ThoughtCreate.title = Some ''clip'', content = Some ''todo: watch'', modality = ''video'',
      source_url = None, image_data_url = None, tags = None\<rparr>"

definition text_payload :: ThoughtCreate where
  "text_payload =
     \<lparr>ThoughtCreate.title = None, content = Some ''Finish the task'', modality = ''text'',
      source_url = None, image_data_url = None, tags = None\<rparr>"

text \<open>
  Stores with one and with two stored thoughts; a store with two thoughts of folder
  \<open>ideas\<close>, and the same store after the ingest of \<open>text_payload\<close>.
\<close>

definition task_thought :: Thought where
  "task_thought =
     \<lparr>title = None, content = Some ''Finish the task'', modality = ''text'',
      source_url = None, image_data_url = None, tags = [], folder = Some ''tasks'',
      meta = [(''routed_by'', ''heuristic-v0'')], pinned = False, status = ''active'',
      created_at = None, updated_at = None\<rparr>"

definition idea_thought :: Thought where
  "idea_thought =
     \<lparr>title = Some ''club'', content = Some ''a concept for the book club'', modality = ''text'',
      source_url = None, image_data_url = None, tags = [''books''], folder = Some ''ideas'',
      meta = [(''routed_by'', ''heuristic-v0'')], pinned = False, status = ''active'',
      created_at = None, updated_at = None\<rparr>"

definition one_task_store :: store where
  "one_task_store =
     \<lparr>fault = None,
      collections = (\<lambda>_. [])(''thought'' := [(ObjectId 1, task_thought)]),
      counter = 2\<rparr>"

definition two_store :: store where
  "two_store =
     \<lparr>fault = None,
      collections = (\<lambda>_. [])(''thought'' := [(ObjectId 1, task_thought), (ObjectId 2, idea_thought)]),
      counter = 3\<rparr>"

definition ideas_store :: store where
  "ideas_store =
     \<lparr>fault = None,
      collections = (\<lambda>_. [])(''thought'' := [(ObjectId 1, idea_thought), (ObjectId 2, idea_thought)]),
      counter = 3\<rparr>"

definition ideas_task_store :: store where
  "ideas_task_store =
     \<lparr>fault = None,
      collections = (\<lambda>_. [])(''thought'' :=
        [(ObjectId 1, idea_thought), (ObjectId 2, idea_thought),
         (ObjectId 3, new_thought text_payload ''tasks'')]),
      counter = 4\<rparr>"

section \<open>Properties\<close>

subsection \<open>Auxiliary facts\<close>

lemma py_or_cases: "py_or x [] = (case x of None \<Rightarrow> [] | Some v \<Rightarrow> v)"
  by (simp add: py_or_def split: option.splits)

lemma route_eq_spec: "smart_route_folder tbl txt tgs = route_spec tbl txt tgs"
  by (simp add: smart_route_folder_def route_spec_def routing_rules_def rule_holds_def
      any_in_def py_or_cases Let_def)








lemma route_tasks_kw:
  "kw \<in> {''todo'', ''task'', ''next'', ''due'', ''deadline''} \<Longrightarrow> sublist kw (lower tbl c) \<Longrightarrow>
   smart_route_folder tbl (Some c) tgs = ''tasks''"
  by (auto simp: smart_route_folder_def any_in_def py_or_def Let_def)









lemma length_str_object_id: "length (str_object_id oid) = 24"
  by (cases oid) simp

lemma route_nonempty: "smart_route_folder tbl x y \<noteq> []"
  by (simp add: smart_route_folder_def Let_def)

lemma matches_folder: "matches [(''folder'', f)] t = (Thought.folder t = Some f)"
  by (simp add: matches_def str_field_def)

lemma matches_empty: "matches [] t"
  by (simp add: matches_def)

lemma convert_to_doc:
  "convert_id (to_doc p) =
     Thought.extend (snd p) \<lparr>raw_id = None, id' = Some (str_object_id (fst p))\<rparr>"
  by (simp add: convert_id_def to_doc_def Thought.defs doc.defs)

lemma folder_extend: "Thought.folder (Thought.extend t m) = Thought.folder t"
  by (simp add: Thought.defs)

lemma list_thoughts_ok:
  "fault s = None \<Longrightarrow>
   list_thoughts get_documents fld limit s =
     (Inr \<lparr>ok = True,
           items = map convert_id (take (nat limit) (map to_doc
                     (filter (\<lambda>p. matches (case fld of None \<Rightarrow> []
                                            | Some f \<Rightarrow> if f = [] then [] else [(''folder'', f)]) (snd p))
                        (collections s ''thought''))))\<rparr>, s)"
  by (simp add: list_thoughts_def get_documents_def)

lemma list_thoughts_fault:
  "fault s = Some m \<Longrightarrow>
   list_thoughts get_documents fld limit s = (Inl \<lparr>status_code = 500, detail = m\<rparr>, s)"
  by (simp add: list_thoughts_def get_documents_def)

lemma list_items_from_store:
  assumes "list_thoughts get_documents fld limit s = (Inr r, s')"
  shows "fault s = None \<and> s' = s \<and>
     items r = map convert_id (take (nat limit) (map to_doc
                     (filter (\<lambda>p. matches (case fld of None \<Rightarrow> []
                                            | Some f \<Rightarrow> if f = [] then [] else [(''folder'', f)]) (snd p))
                        (collections s ''thought''))))"
proof (cases "fault s")
  case None
  with assms list_thoughts_ok [OF None, of fld limit] show ?thesis by auto
next
  case (Some m)
  with assms list_thoughts_fault [OF Some, of fld limit] show ?thesis by simp
qed

lemma list_only_folder:
  assumes "f \<noteq> []" and "list_thoughts get_documents (Some f) limit s = (Inr r, s')"
    and "d \<in> set (items r)"
  shows "Thought.folder d = Some f"
proof -
  from list_items_from_store [OF assms(2)] assms(1)
  have "items r = map convert_id (take (nat limit) (map to_doc
          (filter (\<lambda>p. Thought.folder (snd p) = Some f) (collections s ''thought''))))"
    by (simp add: matches_folder)
  with assms(3) obtain p where "p \<in> set (filter (\<lambda>p. Thought.folder (snd p) = Some f)
      (collections s ''thought''))" and "d = convert_id (to_doc p)"
    by (auto simp: take_map dest!: in_set_takeD)
  then show ?thesis by (simp add: convert_to_doc folder_extend)
qed

lemma list_at_most_limit:
  assumes "0 \<le> limit" and "list_thoughts get_documents fld limit s = (Inr r, s')"
  shows "int (length (items r)) \<le> limit"
proof -
  from list_items_from_store [OF assms(2)]
  have "length (items r) \<le> nat limit" by simp
  with assms(1) show ?thesis by linarith
qed

lemma list_absent_folder:
  assumes "f \<noteq> []" and "fault s = None"
    and "\<forall>p \<in> set (collections s ''thought''). Thought.folder (snd p) \<noteq> Some f"
  shows "list_thoughts get_documents (Some f) limit s = (Inr \<lparr>ok = True, items = []\<rparr>, s)"
proof -
  from assms(3) have "filter (\<lambda>p. Thought.folder (snd p) = Some f) (collections s ''thought'') = []"
    by (simp add: filter_empty_conv)
  with assms(1,2) show ?thesis
    by (simp add: list_thoughts_ok matches_folder)
qed

lemma two_store_fault: "fault two_store = None"
  by (simp add: two_store_def)

lemma two_store_thoughts:
  "collections two_store ''thought'' = [(ObjectId 1, task_thought), (ObjectId 2, idea_thought)]"
  by (simp add: two_store_def)

lemma str_oid_1: "str_object_id (ObjectId 1) = ''000000000000000000000001''"
  by code_simp

lemma ingest_store_result:
  assumes "ingest_thought tbl create_document payload s = (Inr a, s')"
  shows "fault s = None
    \<and> a = \<lparr>IngestResponse.ok = True, id' = str_object_id (ObjectId (counter s)),
           folder = smart_route_folder tbl (ThoughtCreate.content payload) (ThoughtCreate.tags payload)\<rparr>
    \<and> fault s' = None
    \<and> collections s' ''thought'' = collections s ''thought'' @
         [(ObjectId (counter s),
           new_thought payload
             (smart_route_folder tbl (ThoughtCreate.content payload) (ThoughtCreate.tags payload)))]"
  using assms
  by (auto simp: ingest_thought_def create_document_def Let_def split: if_splits option.splits)

lemma matches_flt:
  "matches (case fl of None \<Rightarrow> [] | Some f \<Rightarrow> if f = [] then [] else [(''folder'', f)]) t
     = (fl = None \<or> fl = Some [] \<or> Thought.folder t = fl)"
  by (cases fl) (auto simp: matches_empty matches_folder)

lemma listed_ids:
  assumes "list_thoughts get_documents fld limit s = (Inr r, s')" and "d \<in> set (items r)"
  shows "raw_id d = None \<and> (\<exists>x. doc.id' d = Some x \<and> x \<noteq> [])"
proof -
  from list_items_from_store [OF assms(1)] assms(2)
  obtain p where "d = convert_id (to_doc p)"
    by (auto simp: take_map dest!: in_set_takeD)
  moreover have "str_object_id (fst p) \<noteq> []"
    using length_str_object_id [of "fst p"] by auto
  ultimately show ?thesis
    by (simp add: convert_to_doc Thought.defs doc.defs)
qed

lemma created_is_listed:
  assumes "ingest_thought tbl create_document payload s = (Inr a, s')"
    and "fl = None \<or> fl = Some [] \<or> fl = Some (IngestResponse.folder a)"
    and "length (filter (\<lambda>p. fl = None \<or> fl = Some [] \<or> Thought.folder (snd p) = fl)
           (collections s' ''thought'')) \<le> nat lim"
  shows "IngestResponse.id' a \<noteq> [] \<and>
     (\<exists>r. list_thoughts get_documents fl lim s' = (Inr r, s') \<and>
          Thought.extend (new_thought payload (IngestResponse.folder a))
            \<lparr>raw_id = None, id' = Some (IngestResponse.id' a)\<rparr> \<in> set (items r))"
proof -
  let ?fld = "smart_route_folder tbl (ThoughtCreate.content payload) (ThoughtCreate.tags payload)"
  let ?oid = "ObjectId (counter s)"
  let ?p = "(?oid, new_thought payload ?fld)"
  let ?sel = "\<lambda>p. fl = None \<or> fl = Some [] \<or> Thought.folder (snd p) = fl"
  from ingest_store_result [OF assms(1)]
  have a: "IngestResponse.id' a = str_object_id ?oid" and f: "IngestResponse.folder a = ?fld"
    and ok: "fault s' = None"
    and coll: "collections s' ''thought'' = collections s ''thought'' @ [?p]"
    by simp_all
  have ne: "IngestResponse.id' a \<noteq> []"
    using length_str_object_id [of ?oid] a by auto
  have "?sel ?p"
    using assms(2) f by (auto simp: new_thought_def)
  then have "?p \<in> set (filter ?sel (collections s' ''thought''))"
    using coll by simp
  then have "convert_id (to_doc ?p) \<in> set (map convert_id (map to_doc
      (filter ?sel (collections s' ''thought''))))"
    by (simp only: set_map image_eqI)
  moreover from assms(3) have "take (nat lim) (map to_doc (filter ?sel (collections s' ''thought'')))
      = map to_doc (filter ?sel (collections s' ''thought''))"
    by simp
  ultimately have "convert_id (to_doc ?p) \<in> set (map convert_id (take (nat lim) (map to_doc
      (filter ?sel (collections s' ''thought'')))))"
    by (simp only:)
  then show ?thesis
    using ne a f by (simp add: list_thoughts_ok [OF ok] matches_flt convert_to_doc)
qed

lemma str_oid_2: "str_object_id (ObjectId 2) = ''000000000000000000000002''"
  by code_simp

lemma str_oid_0: "str_object_id (ObjectId 0) = ''000000000000000000000000''"
  by code_simp

lemma str_oid_3: "str_object_id (ObjectId 3) = ''000000000000000000000003''"
  by code_simp

lemma route_text_payload:
  "smart_route_folder tbl (ThoughtCreate.content text_payload) (ThoughtCreate.tags text_payload)
     = ''tasks''"
  unfolding text_payload_def by code_simp

lemma ingest_text_payload:
  "ingest_thought tbl create_document text_payload ideas_store =
     (Inr \<lparr>IngestResponse.ok = True, id' = ''000000000000000000000003'', folder = ''tasks''\<rparr>,
      ideas_task_store)"
proof -
  have m: "ThoughtCreate.modality text_payload = ''text''"
    by (simp add: text_payload_def)
  show ?thesis
    by (simp add: ingest_thought_def create_document_def ideas_store_def ideas_task_store_def
        route_text_payload m str_oid_3 Let_def del: str_object_id.simps)
qed

lemma list_ideas_task_store:
  "list_thoughts get_documents (Some ''tasks'') 1 ideas_task_store =
     (Inr \<lparr>ok = True,
           items = [Thought.extend (new_thought text_payload ''tasks'')
                      \<lparr>raw_id = None, id' = Some ''000000000000000000000003''\<rparr>]\<rparr>,
      ideas_task_store)"
proof -
  have "fault ideas_task_store = None"
    by (simp add: ideas_task_store_def)
  then show ?thesis
    by (simp add: list_thoughts_ok matches_folder convert_to_doc str_oid_3
        ideas_task_store_def idea_thought_def new_thought_def del: str_object_id.simps)
qed

lemma list_two_store_tasks:
  "list_thoughts get_documents (Some ''tasks'') 1 two_store =
     (Inr \<lparr>ok = True,
           items = [Thought.extend task_thought
                      \<lparr>raw_id = None, id' = Some ''000000000000000000000001''\<rparr>]\<rparr>, two_store)"
  by (simp add: list_thoughts_ok two_store_fault two_store_thoughts matches_folder
      convert_to_doc str_oid_1 task_thought_def idea_thought_def
      del: str_object_id.simps)

subsection \<open>The router is total\<close>

text \<open>
  Claim C1. Whatever the content (present or absent) and whatever the tag list (present
  or absent), the router returns one of the keys of the folder registry
  \<open>inbox\<close>, \<open>reads\<close>, \<open>notes\<close>, \<open>ideas\<close>, \<open>tasks\<close>; with both absent it returns \<open>inbox\<close>.
\<close>

theorem route_total:
  "smart_route_folder tbl txt tgs \<in> set (map key get_folders)
   \<and> set (map key get_folders) = {''inbox'', ''reads'', ''notes'', ''ideas'', ''tasks''}
   \<and> smart_route_folder tbl None None = ''inbox''"
proof (intro conjI)
  show "smart_route_folder tbl txt tgs \<in> set (map key get_folders)"
    by (simp add: smart_route_folder_def get_folders_def Let_def)
  show "set (map key get_folders) = {''inbox'', ''reads'', ''notes'', ''ideas'', ''tasks''}"
    by (auto simp add: get_folders_def)
  show "smart_route_folder tbl None None = ''inbox''"
    by code_simp
qed

subsection \<open>Rules are tried in priority order\<close>

text \<open>
  Claim C2. The router returns the folder of the first rule, in the order \<open>tasks\<close>,
  \<open>ideas\<close>, \<open>notes\<close>, \<open>reads\<close>, whose condition holds, and \<open>inbox\<close> when none does:
  it agrees with the spec's rule table searched from the top. In particular, content
  whose lowercase form contains both a tasks keyword and an ideas keyword is routed to
  \<open>tasks\<close>; \<open>todo: brainstorm ideas\<close> goes to \<open>tasks\<close> and \<open>just a brainstorm of ideas\<close>
  goes to \<open>ideas\<close>.
\<close>

theorem route_first_match:
  "smart_route_folder tbl tx tgs = route_spec tbl tx tgs
   \<and> map fst routing_rules = [''tasks'', ''ideas'', ''notes'', ''reads'']
   \<and> (kt \<in> {''todo'', ''task'', ''next'', ''due'', ''deadline''} \<and> sublist kt (lower tbl c)
        \<and> ki \<in> {''idea'', ''concept'', ''brainstorm'', ''inspiration''} \<and> sublist ki (lower tbl c)
      \<longrightarrow> smart_route_folder tbl (Some c) tgs = ''tasks'')
   \<and> smart_route_folder tbl (Some ''todo: brainstorm ideas'') (Some []) = ''tasks''
   \<and> smart_route_folder tbl (Some ''just a brainstorm of ideas'') (Some []) = ''ideas''"
proof (intro conjI)
  show "smart_route_folder tbl tx tgs = route_spec tbl tx tgs"
    by (rule route_eq_spec)
  show "map fst routing_rules = [''tasks'', ''ideas'', ''notes'', ''reads'']"
    by (simp add: routing_rules_def)
  show "kt \<in> {''todo'', ''task'', ''next'', ''due'', ''deadline''} \<and> sublist kt (lower tbl c)
        \<and> ki \<in> {''idea'', ''concept'', ''brainstorm'', ''inspiration''} \<and> sublist ki (lower tbl c)
      \<longrightarrow> smart_route_folder tbl (Some c) tgs = ''tasks''"
    using route_tasks_kw by blast
  show "smart_route_folder tbl (Some ''todo: brainstorm ideas'') (Some []) = ''tasks''"
    by code_simp
  show "smart_route_folder tbl (Some ''just a brainstorm of ideas'') (Some []) = ''ideas''"
    by code_simp
qed

theorem route_first_match_witness:
  "sublist ''todo'' (lower kelvin_table ''TODO: brainstorm Ideas'')
   \<and> sublist ''idea'' (lower kelvin_table ''TODO: brainstorm Ideas'')
   \<and> smart_route_folder kelvin_table (Some ''TODO: brainstorm Ideas'') None = ''tasks''"
proof -
  have h1: "sublist ''todo'' (lower kelvin_table ''TODO: brainstorm Ideas'')" by code_simp
  have h2: "sublist ''idea'' (lower kelvin_table ''TODO: brainstorm Ideas'')" by code_simp
  show ?thesis
    using h1 h2 route_first_match [where tbl = kelvin_table and kt = "''todo''" and ki = "''idea''"
        and c = "''TODO: brainstorm Ideas''" and tgs = None
        and tx = None]
    by simp
qed

subsection \<open>Keywords match as substrings of the lowercased content\<close>



subsection \<open>Tags count as a set of lowercased strings\<close>



subsection \<open>Validation comes before persistence\<close>

text \<open>
  Claim C5. For a payload whose modality is none of \<open>text\<close>, \<open>image\<close>, \<open>link\<close>, \<open>voice\<close>,
  ingest fails with the validation error (status 400) and leaves the database state as it
  was, whatever the database's create function would have done: it is never called.
\<close>

theorem ingest_rejects_modality:
  "ThoughtCreate.modality payload \<notin> {''text'', ''image'', ''link'', ''voice''} \<Longrightarrow>
   ingest_thought tbl create_doc payload s =
     (Inl \<lparr>status_code = 400, detail = ''Unsupported modality''\<rparr>, s)"
  by (simp add: ingest_thought_def)

theorem ingest_rejects_modality_witness:
  "ThoughtCreate.modality video_payload \<notin> {''text'', ''image'', ''link'', ''voice''}
   \<and> ingest_thought kelvin_table counting_create video_payload 0 =
     (Inl \<lparr>status_code = 400, detail = ''Unsupported modality''\<rparr>, 0)"
  using ingest_rejects_modality [of video_payload kelvin_table counting_create 0]
  by (simp add: video_payload_def)

subsection \<open>Persistence failures reach the caller\<close>

text \<open>
  Claim C8. When the database's insert raises with message \<open>m\<close>, ingest fails with status
  500 and detail \<open>m\<close>; when the database's query raises with message \<open>e\<close>, list fails with
  status 500 and detail \<open>e\<close>. In both cases the state is the one the single failed call
  left: no second call, no fallback value, no partial response.
\<close>

theorem errors_surface:
  "(ThoughtCreate.modality payload \<in> {''text'', ''image'', ''link'', ''voice''}
      \<and> create_doc ''thought''
            (new_thought payload
               (smart_route_folder tbl (ThoughtCreate.content payload) (ThoughtCreate.tags payload))) s
          = (Inl (Exception m), s')
    \<longrightarrow> ingest_thought tbl create_doc payload s = (Inl \<lparr>status_code = 500, detail = m\<rparr>, s'))
   \<and> (get_docs ''thought''
         (case fld of None \<Rightarrow> [] | Some f \<Rightarrow> if f = [] then [] else [(''folder'', f)]) limit t
          = (Inl (Exception e), t')
    \<longrightarrow> list_thoughts get_docs fld limit t = (Inl \<lparr>status_code = 500, detail = e\<rparr>, t'))"
  by (simp add: ingest_thought_def list_thoughts_def Let_def)

theorem errors_surface_witness:
  "ingest_thought kelvin_table failing_create text_payload 0 =
     (Inl \<lparr>status_code = 500, detail = ''connection refused''\<rparr>, 1)
   \<and> list_thoughts failing_get (Some ''tasks'') 50 0 =
     (Inl \<lparr>status_code = 500, detail = ''query timed out''\<rparr>, 1)"
  using errors_surface [where tbl = kelvin_table and payload = text_payload
      and create_doc = failing_create
      and s = 0 and m = "''connection refused''" and s' = "Suc 0" and get_docs = failing_get
      and fld = "Some ''tasks''" and limit = 50 and t = 0 and e = "''query timed out''"
      and t' = "Suc 0"]
  by (simp add: failing_create_def failing_get_def text_payload_def)

subsection \<open>Listing by folder\<close>

text \<open>
  Claim C6, as stated, fails for the folder value that is the empty string. The store
  holds one document, of folder \<open>tasks\<close>; list is called with folder \<open>''\<close> and limit 50.
  The folder is given, but the handler treats the empty string as no filter, so the
  document is returned although its folder is not the empty string.
\<close>

theorem list_empty_folder_counterexample:
  "fst (list_thoughts get_documents (Some '''') 50 one_task_store) =
     Inr \<lparr>ok = True,
          items =
            [\<lparr>title = None, content = Some ''Finish the task'', modality = ''text'',
              source_url = None, image_data_url = None, tags = [], folder = Some ''tasks'',
              meta = [(''routed_by'', ''heuristic-v0'')], pinned = False, status = ''active'',
              created_at = None, updated_at = None,
              raw_id = None, id' = Some ''000000000000000000000001''\<rparr>]\<rparr>
   \<and> Some ''tasks'' \<noteq> Some ''''"
  by code_simp

text \<open>
  Claim C6, amended. When list is given a non-empty folder value, every document it
  returns has that value as its folder. For a limit that is not negative, list returns
  at most that many documents, with or without a folder. When the store can serve the
  query and no stored document has the given non-empty folder value, list returns the
  empty sequence and no error.
\<close>

theorem list_filter_limit:
  "(f \<noteq> [] \<and> list_thoughts get_documents (Some f) limit s = (Inr r, s')
      \<longrightarrow> (\<forall>d \<in> set (items r). Thought.folder d = Some f))
   \<and> (0 \<le> lim \<and> list_thoughts get_documents fld lim t = (Inr r', t')
      \<longrightarrow> int (length (items r')) \<le> lim)
   \<and> (g \<noteq> [] \<and> fault u = None
        \<and> (\<forall>p \<in> set (collections u ''thought''). Thought.folder (snd p) \<noteq> Some g)
      \<longrightarrow> list_thoughts get_documents (Some g) n u = (Inr \<lparr>ok = True, items = []\<rparr>, u))"
  using list_only_folder list_at_most_limit list_absent_folder by blast

theorem list_filter_limit_witness:
  "list_thoughts get_documents (Some ''tasks'') 1 two_store =
     (Inr \<lparr>ok = True,
           items = [Thought.extend task_thought
                      \<lparr>raw_id = None, id' = Some ''000000000000000000000001''\<rparr>]\<rparr>, two_store)
   \<and> Thought.folder (Thought.extend task_thought
                      \<lparr>raw_id = None, id' = Some ''000000000000000000000001''\<rparr>) = Some ''tasks''
   \<and> list_thoughts get_documents (Some ''nonexistent-key'') 50 two_store =
     (Inr \<lparr>ok = True, items = []\<rparr>, two_store)"
proof -
  note h1 = list_two_store_tasks
  have h2: "\<forall>p \<in> set (collections two_store ''thought'').
      Thought.folder (snd p) \<noteq> Some ''nonexistent-key''"
    by (simp add: two_store_thoughts task_thought_def idea_thought_def)
  show ?thesis
    using h1 h2 two_store_fault
      list_filter_limit [where f = "''tasks''" and limit = 1 and s = two_store and s' = two_store
        and r = "\<lparr>ok = True,
           items = [Thought.extend task_thought
                      \<lparr>raw_id = None, id' = Some ''000000000000000000000001''\<rparr>]\<rparr>"
        and lim = 1 and fld = "Some ''tasks''" and t = two_store and t' = two_store
        and r' = "\<lparr>ok = True,
           items = [Thought.extend task_thought
                      \<lparr>raw_id = None, id' = Some ''000000000000000000000001''\<rparr>]\<rparr>"
        and g = "''nonexistent-key''" and u = two_store and n = 50]
    by simp
qed

subsection \<open>Identifiers cross the boundary as strings\<close>

text \<open>
  Claim C7. Every record that list returns has no \<open>_id\<close> key left and has the key \<open>id\<close>
  holding a non-empty string. The identifier that a successful ingest returns is a
  non-empty string. A list call made afterwards without folder, with the empty folder
  or with the folder the ingest answered returns the record written by that ingest,
  with its fields as ingested and with \<open>id\<close> equal to the returned identifier, whenever
  the limit is not below the number of stored documents that the call selects (the
  record is the last of them, so a smaller limit leaves it out).
\<close>

theorem ids_are_strings:
  "(list_thoughts get_documents fld limit s = (Inr r, s')
      \<longrightarrow> (\<forall>d \<in> set (items r). raw_id d = None \<and> (\<exists>x. doc.id' d = Some x \<and> x \<noteq> [])))
   \<and> (ingest_thought tbl create_document payload t = (Inr a, t')
        \<and> (fl = None \<or> fl = Some [] \<or> fl = Some (IngestResponse.folder a))
        \<and> length (filter (\<lambda>p. fl = None \<or> fl = Some [] \<or> Thought.folder (snd p) = fl)
                    (collections t' ''thought'')) \<le> nat lim
      \<longrightarrow> IngestResponse.id' a \<noteq> [] \<and>
          (\<exists>r. list_thoughts get_documents fl lim t' = (Inr r, t') \<and>
               Thought.extend (new_thought payload (IngestResponse.folder a))
                 \<lparr>raw_id = None, id' = Some (IngestResponse.id' a)\<rparr> \<in> set (items r)))"
  using listed_ids created_is_listed by blast

theorem ids_are_strings_witness:
  "ingest_thought kelvin_table create_document text_payload ideas_store =
     (Inr \<lparr>IngestResponse.ok = True, id' = ''000000000000000000000003'', folder = ''tasks''\<rparr>,
      ideas_task_store)
   \<and> length (collections ideas_task_store ''thought'') = 3
   \<and> list_thoughts get_documents (Some ''tasks'') 1 ideas_task_store =
     (Inr \<lparr>ok = True,
           items = [Thought.extend (new_thought text_payload ''tasks'')
                      \<lparr>raw_id = None, id' = Some ''000000000000000000000003''\<rparr>]\<rparr>,
      ideas_task_store)
   \<and> (\<exists>r. list_thoughts get_documents (Some ''tasks'') 1 ideas_task_store
            = (Inr r, ideas_task_store)
          \<and> Thought.extend (new_thought text_payload ''tasks'')
               \<lparr>raw_id = None, id' = Some ''000000000000000000000003''\<rparr> \<in> set (items r))
   \<and> raw_id (Thought.extend (new_thought text_payload ''tasks'')
                \<lparr>raw_id = None, id' = Some ''000000000000000000000003''\<rparr>) = None
   \<and> doc.id' (Thought.extend (new_thought text_payload ''tasks'')
                \<lparr>raw_id = None, id' = Some ''000000000000000000000003''\<rparr>)
       = Some ''000000000000000000000003''"
proof -
  have sel: "length (filter (\<lambda>p. Some ''tasks'' = None \<or> Some ''tasks'' = Some []
                 \<or> Thought.folder (snd p) = Some ''tasks'')
               (collections ideas_task_store ''thought'')) \<le> nat 1"
    by (simp add: ideas_task_store_def idea_thought_def new_thought_def)
  have len: "length (collections ideas_task_store ''thought'') = 3"
    by (simp add: ideas_task_store_def)
  show ?thesis
    using sel len ingest_text_payload [of kelvin_table] list_ideas_task_store
      ids_are_strings [where fld = "Some ''tasks''" and limit = 1 and s = ideas_task_store
        and s' = ideas_task_store
        and r = "\<lparr>ok = True,
           items = [Thought.extend (new_thought text_payload ''tasks'')
                      \<lparr>raw_id = None, id' = Some ''000000000000000000000003''\<rparr>]\<rparr>"
        and tbl = kelvin_table and payload = text_payload and t = ideas_store
        and t' = ideas_task_store
        and a = "\<lparr>IngestResponse.ok = True, id' = ''000000000000000000000003'',
                   folder = ''tasks''\<rparr>"
        and lim = 1 and fl = "Some ''tasks''"]
    by (simp add: Thought.defs doc.defs)
qed

subsection \<open>The folder registry is fixed\<close>

text \<open>
  Claim C9. The folders operation takes no input and returns the same five entries
  whatever is stored: keys \<open>inbox\<close>, \<open>reads\<close>, \<open>notes\<close>, \<open>ideas\<close>, \<open>tasks\<close> with names
  \<open>Inbox\<close>, \<open>Reads\<close>, \<open>Notes\<close>, \<open>Ideas\<close>, \<open>Tasks\<close> and priorities 0, 1, 2, 3, 4. The
  list itself is in the order \<open>inbox\<close>, \<open>ideas\<close>, \<open>tasks\<close>, \<open>notes\<close>, \<open>reads\<close>.
\<close>

theorem folders_fixed:
  "set (map (\<lambda>f. (key f, name f, priority f)) get_folders) =
     {(''inbox'', ''Inbox'', 0), (''reads'', ''Reads'', 1), (''notes'', ''Notes'', 2),
      (''ideas'', ''Ideas'', 3), (''tasks'', ''Tasks'', 4)}
   \<and> map (\<lambda>f. (key f, name f, priority f)) get_folders =
     [(''inbox'', ''Inbox'', 0), (''ideas'', ''Ideas'', 3), (''tasks'', ''Tasks'', 4),
      (''notes'', ''Notes'', 2), (''reads'', ''Reads'', 1)]
   \<and> length get_folders = 5
   \<and> distinct (map key get_folders)"
  by (auto simp add: get_folders_def)

subsection \<open>An empty folder argument is no filter\<close>

text \<open>
  Claim C10. Calling list with the folder argument equal to the empty string is the same
  as calling it with no folder: in both cases the database is queried with the empty
  filter. On the document store this returns the documents of every folder, up to the
  limit, in the order they were stored.
\<close>

theorem list_empty_folder_unfiltered:
  "list_thoughts get_docs (Some '''') limit s = list_thoughts get_docs None limit s
   \<and> list_thoughts get_docs (Some '''') limit s =
       (case get_docs ''thought'' [] limit s of
          (Inr docs, s') \<Rightarrow> (Inr \<lparr>ok = True, items = map convert_id docs\<rparr>, s')
        | (Inl (Exception e), s') \<Rightarrow> (Inl \<lparr>status_code = 500, detail = e\<rparr>, s'))
   \<and> (fault t = None \<longrightarrow>
       list_thoughts get_documents (Some '''') lim t =
         (Inr \<lparr>ok = True,
               items = map convert_id (take (nat lim) (map to_doc (collections t ''thought'')))\<rparr>,
          t))"
  by (simp add: list_thoughts_def get_documents_def matches_empty)

theorem list_empty_folder_unfiltered_witness:
  "list_thoughts get_documents (Some '''') 50 two_store =
     (Inr \<lparr>ok = True,
           items = [Thought.extend task_thought
                      \<lparr>raw_id = None, id' = Some ''000000000000000000000001''\<rparr>,
                    Thought.extend idea_thought
                      \<lparr>raw_id = None, id' = Some ''000000000000000000000002''\<rparr>]\<rparr>, two_store)
   \<and> Thought.folder task_thought = Some ''tasks''
   \<and> Thought.folder idea_thought = Some ''ideas''"
proof -
  from two_store_fault
    list_empty_folder_unfiltered [where t = two_store and lim = 50
      and get_docs = get_documents and limit = 50 and s = two_store]
  have "list_thoughts get_documents (Some '''') 50 two_store =
     (Inr \<lparr>ok = True,
           items = map convert_id (take (nat 50) (map to_doc (collections two_store ''thought'')))\<rparr>,
      two_store)"
    by blast
  then show ?thesis
    by (simp add: two_store_thoughts convert_to_doc str_oid_1 str_oid_2
        task_thought_def idea_thought_def del: str_object_id.simps)
qed

end
